theory Spec2Isabelle
  imports Main
begin

section \<open>Python values\<close>

text \<open>
  The module \<^verbatim>\<open>doc/conf.py\<close> is a Sphinx configuration module: a sequence of
  top-level assignments of literals, one formatted string, and one function
  definition. The values it binds are Python objects of seven kinds. A \<^verbatim>\<open>str\<close>
  is held as the bytes of its UTF-8 encoding, as the source file stores it; a
  \<^verbatim>\<open>dict\<close> literal of the module has \<^verbatim>\<open>str\<close> keys only and keeps
  its insertion order, so it is an association list. A function object is held by
  its name; what it does is the HOL function of that name further down.
\<close>

datatype pyval =
    PyNone
  | PyBool bool
  | PyInt int
  | PyStr string
  | PyList "pyval list"
  | PyDict "(string \<times> pyval) list"
  | PyFunction string

text \<open>Python's \<^verbatim>\<open>type(v)\<close>.\<close>

datatype pytype = TNone | TBool | TInt | TStr | TList | TDict | TFunction

fun type_of :: "pyval \<Rightarrow> pytype" where
  "type_of PyNone = TNone"
| "type_of (PyBool b) = TBool"
| "type_of (PyInt i) = TInt"
| "type_of (PyStr s) = TStr"
| "type_of (PyList xs) = TList"
| "type_of (PyDict kvs) = TDict"
| "type_of (PyFunction f) = TFunction"

text \<open>
  The exceptions of the model: the \<^verbatim>\<open>NameError\<close> of reading an unbound name,
  an exception raised inside the documentation tool (held by its class name), and
  the mark of a conversion this theory does not model.
\<close>

datatype exn = NameError string | Raised string | Unmodelled string

section \<open>The module namespace\<close>

text \<open>
  The namespace of a module is a \<^verbatim>\<open>dict\<close> from names to values, in insertion
  order: binding a name that is already bound replaces its value in place, binding a
  new name appends it.
\<close>

type_synonym namespace = "(string \<times> pyval) list"

fun store_name :: "string \<Rightarrow> pyval \<Rightarrow> namespace \<Rightarrow> namespace" where
  "store_name k v [] = [(k, v)]"
| "store_name k v ((k', v') # ns) =
     (if k' = k then (k, v) # ns else (k', v') # store_name k v ns)"

definition load_name :: "string \<Rightarrow> namespace \<Rightarrow> exn + pyval" where
  "load_name k ns = (case map_of ns k of None \<Rightarrow> Inl (NameError k) | Some v \<Rightarrow> Inr v)"

text \<open>
  A top-level statement takes the namespace to a new one, or raises. The module is
  its statements run in order from the empty namespace; the first exception ends it.
\<close>

type_synonym stmt = "namespace \<Rightarrow> exn + namespace"

definition assign :: "string \<Rightarrow> pyval \<Rightarrow> stmt" where
  "assign k v ns = Inr (store_name k v ns)"

text \<open>\<^verbatim>\<open>def f(...): ...\<close> binds the name to the function object.\<close>

definition def_function :: "string \<Rightarrow> stmt" where
  "def_function f ns = assign f (PyFunction f) ns"

fun exec :: "stmt list \<Rightarrow> namespace \<Rightarrow> exn + namespace" where
  "exec [] ns = Inr ns"
| "exec (s # ss) ns = (case s ns of Inl e \<Rightarrow> Inl e | Inr ns' \<Rightarrow> exec ss ns')"

text \<open>
  A replacement field \<^verbatim>\<open>{x}\<close> of a formatted string is \<^verbatim>\<open>format(x, '')\<close>:
  a \<^verbatim>\<open>str\<close> is its own text; \<^verbatim>\<open>None\<close> and the booleans are their names.
  The module formats a \<^verbatim>\<open>str\<close> only: the conversions of integers, containers
  and functions are left out, and marked as such.
\<close>

fun format_value :: "pyval \<Rightarrow> exn + string" where
  "format_value (PyStr s) = Inr s"
| "format_value PyNone = Inr ''None''"
| "format_value (PyBool b) = Inr (if b then ''True'' else ''False'')"
| "format_value (PyInt i) = Inl (Unmodelled ''format of int'')"
| "format_value (PyList xs) = Inl (Unmodelled ''format of list'')"
| "format_value (PyDict kvs) = Inl (Unmodelled ''format of dict'')"
| "format_value (PyFunction f) = Inl (Unmodelled ''format of function'')"

text \<open>
  \<^verbatim>\<open>html_title = f'{project}'\<close>: read \<^verbatim>\<open>project\<close>, format it, join the
  pieces of the formatted string (there is one), bind the result.
\<close>

definition html_title_stmt :: stmt where
  "html_title_stmt ns =
     (case load_name ''project'' ns of
        Inl e \<Rightarrow> Inl e
      | Inr v \<Rightarrow>
          (case format_value v of
             Inl e \<Rightarrow> Inl e
           | Inr s \<Rightarrow> assign ''html_title'' (PyStr (concat [s])) ns))"

section \<open>The configuration module\<close>

definition extensions :: pyval where
  "extensions = PyList [
     PyStr ''myst_parser'',
     PyStr ''sphinx.ext.extlinks'',
     PyStr ''sphinx.ext.graphviz'',
     PyStr ''sphinx.ext.intersphinx'',
     PyStr ''sphinx.ext.todo'',
     PyStr ''sphinx_copybutton'',
     PyStr ''sphinx_design'',
     PyStr ''sphinx_examples'',
     PyStr ''sphinx_last_updated_by_git'',
     PyStr ''sphinx_sitemap'',
     PyStr ''sphinx_tabs.tabs'',
     PyStr ''sphinx_togglebutton'',
     PyStr ''sphinxext.opengraph'']"

text \<open>
  The two hint texts are Chinese (U+70B9 U+51FB U+5C55 U+5F00 and
  U+70B9 U+51FB U+9690 U+85CF); they are given by their UTF-8 bytes.
\<close>

definition togglebutton_hint :: pyval where
  "togglebutton_hint = PyStr
     [CHR 0xE7, CHR 0x82, CHR 0xB9, CHR 0xE5, CHR 0x87, CHR 0xBB,
      CHR 0xE5, CHR 0xB1, CHR 0x95, CHR 0xE5, CHR 0xBC, CHR 0x80]"

definition togglebutton_hint_hide :: pyval where
  "togglebutton_hint_hide = PyStr
     [CHR 0xE7, CHR 0x82, CHR 0xB9, CHR 0xE5, CHR 0x87, CHR 0xBB,
      CHR 0xE9, CHR 0x9A, CHR 0x90, CHR 0xE8, CHR 0x97, CHR 0x8F]"

definition html_theme_options :: pyval where
  "html_theme_options = PyDict [
     (''icon_links'', PyList [
        PyDict [
          (''name'', PyStr ''Gitlab''),
          (''url'', PyStr ''https://github.com/ODYZZEIA-Discord-bot/jsbot_doc''),
          (''icon'', PyStr ''fa-brands fa-gitlab'')]]),
     (''repository_url'', PyStr ''https://github.com/ODYZZEIA-Discord-bot/jsbot_doc''),
     (''search_as_you_type'', PyBool True),
     (''show_nav_level'', PyInt 0),
     (''show_prev_next'', PyBool True),
     (''show_toc_level'', PyInt 2),
     (''use_edit_page_button'', PyBool True),
     (''use_issues_button'', PyBool True),
     (''use_sidenotes'', PyBool True),
     (''use_source_button'', PyBool True)]"

text \<open>The statements of \<^verbatim>\<open>conf.py\<close>, in the order of the file.\<close>

definition conf_py :: "stmt list" where
  "conf_py = [
     assign ''project'' (PyStr ''Discord.js Bot Project''),
     assign ''copyright'' (PyStr ''2024, d''),
     assign ''author'' (PyStr ''d''),
     html_title_stmt,
     assign ''extensions'' extensions,
     assign ''togglebutton_hint'' togglebutton_hint,
     assign ''togglebutton_hint_hide'' togglebutton_hint_hide,
     assign ''templates_path'' (PyList [PyStr ''_templates'']),
     assign ''exclude_patterns'' (PyList [PyStr ''README.md'']),
     assign ''language'' (PyStr ''zh_CN''),
     assign ''html_copy_source'' (PyBool False),
     assign ''html_show_sourcelink'' (PyBool False),
     assign ''myst_enable_extensions''
       (PyList [PyStr ''colon_fence'', PyStr ''deflist'', PyStr ''dollarmath'']),
     assign ''myst_heading_anchors'' (PyInt 2),
     assign ''myst_highlight_code_blocks'' (PyBool True),
     assign ''html_theme'' (PyStr ''sphinx_book_theme''),
     assign ''html_theme_options'' html_theme_options,
     assign ''html_static_path'' (PyList [PyStr ''_static'', PyStr ''_theme'']),
     assign ''html_search_language'' (PyStr ''zh''),
     assign ''html_last_updated_fmt'' (PyStr ''%Y-%m-%d %H:%M:%S''),
     assign ''git_last_updated_timezone'' (PyStr ''Asia/Shanghai''),
     assign ''html_baseurl'' (PyStr ''https://TODO/''),
     assign ''sitemap_filename'' (PyStr ''sitemapindex.xml''),
     assign ''sitemap_url_scheme'' (PyStr ''{link}''),
     assign ''html_extra_path'' (PyList [PyStr ''_static/robots.txt'']),
     def_function ''setup'']"

definition conf_module :: "exn + namespace" where
  "conf_module = exec conf_py []"

text \<open>
  What the documentation tool reads from the module: the bindings of its namespace
  once it has run (none when it raised), and the value of one option.
\<close>

definition bindings :: namespace where
  "bindings = (case conf_module of Inl e \<Rightarrow> [] | Inr ns \<Rightarrow> ns)"

definition config_value :: "string \<Rightarrow> pyval option" where
  "config_value k = map_of bindings k"

section \<open>The setup hook\<close>

text \<open>
  \<^verbatim>\<open>def setup(app): app.add_css_file("theme.css")\<close>

  The application object is the documentation tool's. Its method is taken as it
  comes: any function from the positional arguments and the tool's state to a
  returned value or a raised exception, and the tool's new state. An application
  object may have any further attributes (the record is extensible). Every method
  invocation the hook makes is written to a log, by name and arguments, beside the
  tool's state.
\<close>

type_synonym call = "string \<times> pyval list"

type_synonym 'w bound_method = "pyval list \<Rightarrow> 'w \<Rightarrow> (exn + pyval) \<times> 'w"

record 'w application =
  add_css_file :: "'w bound_method"

definition invoke ::
  "string \<Rightarrow> 'w bound_method \<Rightarrow> pyval list \<Rightarrow> call list \<times> 'w \<Rightarrow> (exn + pyval) \<times> call list \<times> 'w" where
  "invoke name m args s =
     (case s of (log, w) \<Rightarrow>
        (case m args w of (r, w') \<Rightarrow> (r, log @ [(name, args)], w')))"

text \<open>
  The body is one expression statement: its value is dropped, and a function that
  ends without \<^verbatim>\<open>return\<close> returns \<^verbatim>\<open>None\<close>. An exception of the call leaves
  the function at once.
\<close>

definition setup_hook ::
  "('w, 'z) application_scheme \<Rightarrow> call list \<times> 'w \<Rightarrow> (exn + pyval) \<times> call list \<times> 'w" where
  "setup_hook app s =
     (case invoke ''add_css_file'' (add_css_file app) [PyStr ''theme.css''] s of
        (Inl e, s') \<Rightarrow> (Inl e, s')
      | (Inr v, s') \<Rightarrow> (Inr PyNone, s'))"

text \<open>
  An application object to run the hook on: its state is the list of registered
  stylesheets, and \<^verbatim>\<open>add_css_file\<close> appends the file name it is given.
\<close>

definition css_registry :: "string list application" where
  "css_registry = \<lparr> add_css_file = (\<lambda>args files.
       case args of
         [PyStr f] \<Rightarrow> (Inr PyNone, files @ [f])
       | _ \<Rightarrow> (Inl (Raised ''TypeError''), files)) \<rparr>"

section \<open>Shapes of configuration values\<close>

text \<open>An ordered sequence of strings: a list whose elements are all \<^verbatim>\<open>str\<close>.\<close>

definition str_list :: "pyval \<Rightarrow> bool" where
  "str_list v = (case v of PyList xs \<Rightarrow> list_all (\<lambda>x. type_of x = TStr) xs | _ \<Rightarrow> False)"

text \<open>
  The four shapes the specification lists for a configuration value: a string, a
  boolean, an ordered sequence of strings, a mapping.
\<close>

definition listed_shape :: "pyval \<Rightarrow> bool" where
  "listed_shape v = (type_of v = TStr \<or> type_of v = TBool \<or> str_list v \<or> type_of v = TDict)"

text \<open>A mapping whose values are all strings, as the one element of \<^verbatim>\<open>icon_links\<close>.\<close>

definition str_dict :: "pyval \<Rightarrow> bool" where
  "str_dict v = (case v of PyDict kvs \<Rightarrow> list_all (\<lambda>kv. type_of (snd kv) = TStr) kvs | _ \<Rightarrow> False)"

text \<open>
  What an entry of \<^verbatim>\<open>html_theme_options\<close> holds: a string, a boolean, an
  integer, or a list of mappings of strings.
\<close>

definition theme_option_shape :: "pyval \<Rightarrow> bool" where
  "theme_option_shape v =
     (type_of v = TStr \<or> type_of v = TBool \<or> type_of v = TInt \<or>
      (case v of PyList xs \<Rightarrow> list_all str_dict xs | _ \<Rightarrow> False))"

text \<open>
  An option is declared inside a mapping when some top-level binding is a mapping
  with the option's name among its keys; it is declared flat when the option's name
  is itself a top-level binding of a string.
\<close>

definition declared_in_mapping :: "string \<Rightarrow> bool" where
  "declared_in_mapping opt =
     list_ex (\<lambda>kv. case snd kv of PyDict kvs \<Rightarrow> opt \<in> set (map fst kvs) | _ \<Rightarrow> False) bindings"

definition declared_flat :: "string \<Rightarrow> bool" where
  "declared_flat opt = (case config_value opt of Some (PyStr s) \<Rightarrow> True | _ \<Rightarrow> False)"

section \<open>Hosts of URLs\<close>

text \<open>
  The host of an absolute URL: what stands between \<^verbatim>\<open>://\<close> and the next
  \<^verbatim>\<open>/\<close>.
\<close>

fun after_scheme :: "string \<Rightarrow> string" where
  "after_scheme (a # b # c # rest) =
     (if a = CHR '':'' \<and> b = CHR ''/'' \<and> c = CHR ''/'' then rest
      else after_scheme (b # c # rest))"
| "after_scheme rest = []"

definition url_host :: "string \<Rightarrow> string" where
  "url_host u = takeWhile (\<lambda>c. c \<noteq> CHR ''/'') (after_scheme u)"

section \<open>The module runs\<close>

text \<open>
  Running the statements of the module from the empty namespace raises nothing and
  leaves these 26 bindings, in this order.
\<close>

lemma conf_module_runs:
  "conf_module = Inr [
      (''project'', PyStr ''Discord.js Bot Project''),
      (''copyright'', PyStr ''2024, d''),
      (''author'', PyStr ''d''),
      (''html_title'', PyStr ''Discord.js Bot Project''),
      (''extensions'', extensions),
      (''togglebutton_hint'', togglebutton_hint),
      (''togglebutton_hint_hide'', togglebutton_hint_hide),
      (''templates_path'', PyList [PyStr ''_templates'']),
      (''exclude_patterns'', PyList [PyStr ''README.md'']),
      (''language'', PyStr ''zh_CN''),
      (''html_copy_source'', PyBool False),
      (''html_show_sourcelink'', PyBool False),
      (''myst_enable_extensions'',
         PyList [PyStr ''colon_fence'', PyStr ''deflist'', PyStr ''dollarmath'']),
      (''myst_heading_anchors'', PyInt 2),
      (''myst_highlight_code_blocks'', PyBool True),
      (''html_theme'', PyStr ''sphinx_book_theme''),
      (''html_theme_options'', html_theme_options),
      (''html_static_path'', PyList [PyStr ''_static'', PyStr ''_theme'']),
      (''html_search_language'', PyStr ''zh''),
      (''html_last_updated_fmt'', PyStr ''%Y-%m-%d %H:%M:%S''),
      (''git_last_updated_timezone'', PyStr ''Asia/Shanghai''),
      (''html_baseurl'', PyStr ''https://TODO/''),
      (''sitemap_filename'', PyStr ''sitemapindex.xml''),
      (''sitemap_url_scheme'', PyStr ''{link}''),
      (''html_extra_path'', PyList [PyStr ''_static/robots.txt'']),
      (''setup'', PyFunction ''setup'')]"
  by (simp add: conf_module_def conf_py_def assign_def def_function_def
      html_title_stmt_def load_name_def)

lemmas bindings_eq = bindings_def [unfolded conf_module_runs sum.case]

lemma type_of_literals:
  "type_of extensions = TList"
  "type_of togglebutton_hint = TStr"
  "type_of togglebutton_hint_hide = TStr"
  "type_of html_theme_options = TDict"
  by (simp_all add: extensions_def togglebutton_hint_def togglebutton_hint_hide_def
      html_theme_options_def)

lemma str_list_extensions: "str_list extensions"
  by (simp add: str_list_def extensions_def)

section \<open>The setup hook registers one stylesheet\<close>

lemma invoke_log:
  "fst (snd (invoke name m args (log, w))) = log @ [(name, args)]"
  by (simp add: invoke_def split: prod.split)

lemma invoke_state:
  "snd (snd (invoke name m args (log, w))) = snd (m args w)"
  by (simp add: invoke_def split: prod.split)

lemma invoke_result:
  "fst (invoke name m args (log, w)) = fst (m args w)"
  by (simp add: invoke_def split: prod.split)

lemma setup_hook_state:
  "snd (setup_hook app s) = snd (invoke ''add_css_file'' (add_css_file app) [PyStr ''theme.css''] s)"
  by (simp add: setup_hook_def split: prod.split sum.split)

lemma setup_hook_result:
  "fst (setup_hook app s) =
     (case fst (invoke ''add_css_file'' (add_css_file app) [PyStr ''theme.css''] s) of
        Inl e \<Rightarrow> Inl e | Inr v \<Rightarrow> Inr PyNone)"
  by (simp add: setup_hook_def split: prod.split sum.split)

text \<open>
  C1. For every application object, whatever its \<^verbatim>\<open>add_css_file\<close> does and
  whatever the calls logged before and the tool's state: the hook makes exactly one
  method invocation, \<^verbatim>\<open>add_css_file\<close> with the single argument
  \<^verbatim>\<open>"theme.css"\<close>; the tool's state afterwards is the state that one call
  leaves, so nothing else is done; and the hook returns \<^verbatim>\<open>None\<close> whenever the
  call returns, whatever value it returns. The only other outcome is that the call
  itself raises, and then that exception leaves the hook.
\<close>

theorem setup_registers_theme_css:
  fixes app :: "('w, 'z) application_scheme"
  shows "fst (snd (setup_hook app (log, w))) = log @ [(''add_css_file'', [PyStr ''theme.css''])]
       \<and> snd (snd (setup_hook app (log, w))) = snd (add_css_file app [PyStr ''theme.css''] w)
       \<and> (\<forall>v. fst (add_css_file app [PyStr ''theme.css''] w) = Inr v
              \<longrightarrow> fst (setup_hook app (log, w)) = Inr PyNone)
       \<and> (\<forall>e. fst (add_css_file app [PyStr ''theme.css''] w) = Inl e
              \<longrightarrow> fst (setup_hook app (log, w)) = Inl e)"
  by (simp add: setup_hook_state setup_hook_result invoke_log invoke_state invoke_result)

theorem setup_registers_theme_css_witness:
  "fst (add_css_file css_registry [PyStr ''theme.css''] []) = Inr PyNone
   \<and> setup_hook css_registry ([], []) =
       (Inr PyNone, [(''add_css_file'', [PyStr ''theme.css''])], [''theme.css''])"
  using setup_registers_theme_css [of css_registry "[]" "[]"]
  by (simp add: css_registry_def prod_eq_iff)

section \<open>Kinds of bindings\<close>

text \<open>
  C2. The module binds 26 distinct names. The bindings whose value is a function
  are \<^verbatim>\<open>setup\<close> and no other; every binding but \<^verbatim>\<open>setup\<close> holds a string, a
  boolean, an integer, a list or a mapping.
\<close>

theorem setup_is_the_only_function:
  "length bindings = 26
   \<and> distinct (map fst bindings)
   \<and> filter (\<lambda>kv. type_of (snd kv) = TFunction) bindings = [(''setup'', PyFunction ''setup'')]
   \<and> list_all (\<lambda>kv. type_of (snd kv) = TStr \<or> type_of (snd kv) = TBool \<or>
                     type_of (snd kv) = TInt \<or> type_of (snd kv) = TList \<or>
                     type_of (snd kv) = TDict)
       (filter (\<lambda>kv. fst kv \<noteq> ''setup'') bindings)"
  by (simp add: bindings_eq type_of_literals)

text \<open>
  C3, as the specification states it: every binding is a string, a boolean, an
  ordered sequence of strings or a mapping. It fails: \<^verbatim>\<open>myst_heading_anchors\<close>
  is the integer 2. Inside the mapping \<^verbatim>\<open>html_theme_options\<close> the same two
  shapes occur that the statement rules out: \<^verbatim>\<open>show_nav_level\<close> is an integer
  and \<^verbatim>\<open>icon_links\<close> is a sequence whose element is a mapping.
\<close>

theorem listed_shapes_counterexample:
  "config_value ''myst_heading_anchors'' = Some (PyInt 2)
   \<and> \<not> listed_shape (PyInt 2)
   \<and> \<not> list_all (\<lambda>kv. listed_shape (snd kv)) bindings
   \<and> (\<exists>kvs d. config_value ''html_theme_options'' = Some (PyDict kvs)
          \<and> map_of kvs ''show_nav_level'' = Some (PyInt 0)
          \<and> map_of kvs ''icon_links'' = Some (PyList [PyDict d])
          \<and> \<not> listed_shape (PyList [PyDict d]))"
  by (simp add: config_value_def bindings_eq listed_shape_def str_list_def
      html_theme_options_def)

text \<open>
  C3, amended. Two bindings have another shape: \<^verbatim>\<open>myst_heading_anchors\<close>, the
  integer 2, and the hook \<^verbatim>\<open>setup\<close>, a function. Every other binding is a
  string, a boolean, an ordered sequence of strings or a mapping. The one mapping is
  \<^verbatim>\<open>html_theme_options\<close>; each of its ten entries holds a string, a boolean, an
  integer (\<^verbatim>\<open>show_nav_level\<close> is 0 and \<^verbatim>\<open>show_toc_level\<close> is 2) or a list of
  mappings of strings (\<^verbatim>\<open>icon_links\<close>).
\<close>

theorem shapes_of_configuration_values:
  "config_value ''myst_heading_anchors'' = Some (PyInt 2)
   \<and> config_value ''setup'' = Some (PyFunction ''setup'')
   \<and> list_all (\<lambda>kv. listed_shape (snd kv))
       (filter (\<lambda>kv. fst kv \<noteq> ''myst_heading_anchors'' \<and> fst kv \<noteq> ''setup'') bindings)
   \<and> map fst (filter (\<lambda>kv. type_of (snd kv) = TDict) bindings) = [''html_theme_options'']
   \<and> (\<exists>kvs. config_value ''html_theme_options'' = Some (PyDict kvs)
          \<and> length kvs = 10
          \<and> list_all (\<lambda>kv. theme_option_shape (snd kv)) kvs
          \<and> map_of kvs ''show_nav_level'' = Some (PyInt 0)
          \<and> map_of kvs ''show_toc_level'' = Some (PyInt 2)
          \<and> (\<exists>d. map_of kvs ''icon_links'' = Some (PyList [d]) \<and> str_dict d))"
  by (simp add: config_value_def bindings_eq listed_shape_def str_list_extensions
      type_of_literals)
    (simp add: html_theme_options_def theme_option_shape_def str_dict_def str_list_def)

section \<open>Single options\<close>

text \<open>
  C4, as the specification states it: the toggle-button options are declared inside
  a mapping rather than as flat top-level string variables. It fails: neither name
  is a key of any mapping the module binds, and both are top-level bindings of
  strings.
\<close>

theorem togglebutton_mapping_counterexample:
  "\<not> declared_in_mapping ''togglebutton_hint''
   \<and> \<not> declared_in_mapping ''togglebutton_hint_hide''
   \<and> declared_flat ''togglebutton_hint''
   \<and> declared_flat ''togglebutton_hint_hide''"
  by (simp add: declared_in_mapping_def declared_flat_def config_value_def bindings_eq
      extensions_def togglebutton_hint_def togglebutton_hint_hide_def html_theme_options_def)

text \<open>
  C4, amended. The hint texts of the toggle-button extension are two separate flat
  top-level bindings of strings, \<^verbatim>\<open>togglebutton_hint\<close> (the text shown for
  expanding) and \<^verbatim>\<open>togglebutton_hint_hide\<close> (the text shown for hiding), one right
  after the other. The only mapping the module binds is \<^verbatim>\<open>html_theme_options\<close>,
  and no toggle-button option is among its keys.
\<close>

theorem togglebutton_options_are_flat:
  "config_value ''togglebutton_hint'' = Some togglebutton_hint
   \<and> config_value ''togglebutton_hint_hide'' = Some togglebutton_hint_hide
   \<and> type_of togglebutton_hint = TStr
   \<and> type_of togglebutton_hint_hide = TStr
   \<and> togglebutton_hint \<noteq> togglebutton_hint_hide
   \<and> map fst (filter (\<lambda>kv. type_of (snd kv) = TDict) bindings) = [''html_theme_options'']
   \<and> (\<exists>kvs. html_theme_options = PyDict kvs
          \<and> map fst kvs = [''icon_links'', ''repository_url'', ''search_as_you_type'',
               ''show_nav_level'', ''show_prev_next'', ''show_toc_level'',
               ''use_edit_page_button'', ''use_issues_button'', ''use_sidenotes'',
               ''use_source_button''])"
  by (simp add: config_value_def bindings_eq type_of_literals)
    (simp add: togglebutton_hint_def togglebutton_hint_hide_def html_theme_options_def)

text \<open>
  C5. \<^verbatim>\<open>extensions\<close> is bound to a list of exactly 13 elements, every one a
  string: the module names below in this order, the first \<^verbatim>\<open>myst_parser\<close> and the
  last \<^verbatim>\<open>sphinxext.opengraph\<close>.
\<close>

theorem extensions_are_thirteen_names:
  "\<exists>xs. config_value ''extensions'' = Some (PyList xs)
      \<and> length xs = 13
      \<and> list_all (\<lambda>x. type_of x = TStr) xs
      \<and> hd xs = PyStr ''myst_parser''
      \<and> last xs = PyStr ''sphinxext.opengraph''
      \<and> xs = map PyStr [''myst_parser'', ''sphinx.ext.extlinks'', ''sphinx.ext.graphviz'',
           ''sphinx.ext.intersphinx'', ''sphinx.ext.todo'', ''sphinx_copybutton'',
           ''sphinx_design'', ''sphinx_examples'', ''sphinx_last_updated_by_git'',
           ''sphinx_sitemap'', ''sphinx_tabs.tabs'', ''sphinx_togglebutton'',
           ''sphinxext.opengraph'']"
  by (simp add: config_value_def bindings_eq extensions_def)

text \<open>
  C6. Both flags of source-link exposure are bound, and both to \<^verbatim>\<open>False\<close>.
\<close>

theorem source_links_disabled:
  "config_value ''html_copy_source'' = Some (PyBool False)
   \<and> config_value ''html_show_sourcelink'' = Some (PyBool False)"
  by (simp add: config_value_def bindings_eq)

text \<open>
  C7. \<^verbatim>\<open>language\<close> is the string \<^verbatim>\<open>zh_CN\<close> and \<^verbatim>\<open>html_search_language\<close>
  is the string \<^verbatim>\<open>zh\<close>; the two agree, the search language being the language
  tag up to its underscore.
\<close>

theorem language_tags:
  "config_value ''language'' = Some (PyStr ''zh_CN'')
   \<and> config_value ''html_search_language'' = Some (PyStr ''zh'')
   \<and> (\<exists>l s. config_value ''language'' = Some (PyStr l)
          \<and> config_value ''html_search_language'' = Some (PyStr s)
          \<and> s = takeWhile (\<lambda>c. c \<noteq> CHR ''_'') l)"
  by (simp add: config_value_def bindings_eq)

text \<open>
  C8. \<^verbatim>\<open>sitemap_filename\<close> is the string \<^verbatim>\<open>sitemapindex.xml\<close> and
  \<^verbatim>\<open>sitemap_url_scheme\<close> is the template string \<^verbatim>\<open>{link}\<close>.
\<close>

theorem sitemap_options:
  "config_value ''sitemap_filename'' = Some (PyStr ''sitemapindex.xml'')
   \<and> config_value ''sitemap_url_scheme'' = Some (PyStr ''{link}'')"
  by (simp add: config_value_def bindings_eq)

section \<open>The page title\<close>

lemma html_title_stmt_str:
  "load_name ''project'' ns = Inr (PyStr s) \<Longrightarrow>
     html_title_stmt ns = Inr (store_name ''html_title'' (PyStr s) ns)"
  by (simp add: html_title_stmt_def assign_def)

lemma map_of_store_name: "map_of (store_name k v ns) = (map_of ns)(k \<mapsto> v)"
  by (induction ns) (auto simp: fun_eq_iff)

text \<open>
  C9. The formatted string holds \<^verbatim>\<open>project\<close> and nothing around it: in any
  namespace where \<^verbatim>\<open>project\<close> is bound to a string, the statement binds
  \<^verbatim>\<open>html_title\<close> to that same string, character for character. In the module
  both are \<^verbatim>\<open>Discord.js Bot Project\<close>.
\<close>

theorem html_title_is_project:
  "(\<forall>ns s. load_name ''project'' ns = Inr (PyStr s) \<longrightarrow>
       (\<exists>ns'. html_title_stmt ns = Inr ns' \<and> map_of ns' ''html_title'' = Some (PyStr s)
            \<and> map_of ns' ''project'' = Some (PyStr s)))
   \<and> config_value ''html_title'' = config_value ''project''
   \<and> config_value ''html_title'' = Some (PyStr ''Discord.js Bot Project'')"
proof (intro conjI allI impI)
  fix ns s
  assume p: "load_name ''project'' ns = Inr (PyStr s)"
  then have "map_of ns ''project'' = Some (PyStr s)"
    by (simp add: load_name_def split: option.splits)
  then show "\<exists>ns'. html_title_stmt ns = Inr ns' \<and> map_of ns' ''html_title'' = Some (PyStr s)
      \<and> map_of ns' ''project'' = Some (PyStr s)"
    using html_title_stmt_str [OF p] by (simp add: map_of_store_name)
qed (simp_all add: config_value_def bindings_eq)

theorem html_title_is_project_witness:
  "load_name ''project'' [(''project'', PyStr ''A'')] = Inr (PyStr ''A'')
   \<and> (\<exists>ns'. html_title_stmt [(''project'', PyStr ''A'')] = Inr ns'
          \<and> map_of ns' ''html_title'' = Some (PyStr ''A''))"
proof -
  have p: "load_name ''project'' [(''project'', PyStr ''A'')] = Inr (PyStr ''A'')"
    by (simp add: load_name_def)
  from html_title_is_project p show ?thesis by blast
qed

section \<open>The base URL\<close>

lemma url_host_base: "url_host (''https://TODO/'' @ rest) = ''TODO''"
  by (simp add: url_host_def)

text \<open>
  C10. \<^verbatim>\<open>html_baseurl\<close> is the placeholder literal \<^verbatim>\<open>https://TODO/\<close>. Every
  absolute URL derived from it, that is every string that continues it, as the
  scheme \<^verbatim>\<open>{link}\<close> continues it by the path of a page, has the host
  \<^verbatim>\<open>TODO\<close>, a placeholder and not the host \<^verbatim>\<open>github.com\<close> of the
  repository. The base URL differs from the repository URL that the theme options
  hold twice, as \<^verbatim>\<open>repository_url\<close> and as the \<^verbatim>\<open>url\<close> of the icon link.
\<close>

theorem html_baseurl_is_placeholder:
  "config_value ''html_baseurl'' = Some (PyStr ''https://TODO/'')
   \<and> (\<forall>b link. config_value ''html_baseurl'' = Some (PyStr b) \<longrightarrow> url_host (b @ link) = ''TODO'')
   \<and> (\<exists>kvs icon. config_value ''html_theme_options'' = Some (PyDict kvs)
          \<and> map_of kvs ''repository_url'' =
               Some (PyStr ''https://github.com/ODYZZEIA-Discord-bot/jsbot_doc'')
          \<and> map_of kvs ''icon_links'' = Some (PyList [PyDict icon])
          \<and> map_of icon ''url'' =
               Some (PyStr ''https://github.com/ODYZZEIA-Discord-bot/jsbot_doc'')
          \<and> config_value ''html_baseurl'' \<noteq> map_of kvs ''repository_url''
          \<and> config_value ''html_baseurl'' \<noteq> map_of icon ''url'')
   \<and> url_host ''https://github.com/ODYZZEIA-Discord-bot/jsbot_doc'' = ''github.com''"
proof -
  have base: "config_value ''html_baseurl'' = Some (PyStr ''https://TODO/'')"
    by (simp add: config_value_def bindings_eq)
  have opts: "config_value ''html_theme_options'' = Some html_theme_options"
    by (simp add: config_value_def bindings_eq)
  have host: "url_host ''https://github.com/ODYZZEIA-Discord-bot/jsbot_doc'' = ''github.com''"
    by (simp add: url_host_def)
  have derived: "\<forall>b link. config_value ''html_baseurl'' = Some (PyStr b)
      \<longrightarrow> url_host (b @ link) = ''TODO''"
    using url_host_base by (simp add: base)
  show ?thesis
    unfolding opts
    using derived host by (simp add: base html_theme_options_def)
qed

theorem html_baseurl_is_placeholder_witness:
  "config_value ''html_baseurl'' = Some (PyStr ''https://TODO/'')
   \<and> url_host (''https://TODO/'' @ ''index.html'') = ''TODO''"
  using html_baseurl_is_placeholder by blast

end
